theory Spec2Isabelle
  imports Complex_Main "HOL-Library.Sublist"
begin

section \<open>Signature capture: touch points to SVG path data\<close>

text \<open>
  The development embeds the two components of the repository that turn touch points
  into SVG path strings: \<open>PanResponderSignature\<close> (which rebuilds the path of the stroke
  in progress from its whole point buffer on every point) and \<open>CustomSignature\<close> (which
  appends one segment per point).

  Numbers. A coordinate is a JavaScript number. The definitions are polymorphic in the
  number type \<open>'n\<close>: they use nothing of it but the source's expression \<open>(a + b) / 2\<close>, and
  no law of arithmetic enters any general theorem. The conversion of a number to text by
  a template literal is a language primitive; every function that builds a string takes
  it as its first argument \<open>str\<close>.

  State. A \<open>useState\<close> cell and a \<open>useRef\<close> cell are fields of a record, and an event
  handler is a function from the record before the event to the record after it. Each
  handler runs against the values of the last render, which are the values left by the
  previous event: events are delivered one at a time and the component renders between
  them. Under this reading a functional update \<open>setX(prev => f prev)\<close> and a read of \<open>x\<close>
  from the handler's closure see the same value.

  Callback. The field \<open>notified\<close> lists, oldest first, the argument of every call
  \<open>onSignatureChange?.(arg)\<close> made so far; the host is taken to have supplied the prop.
  No handler of either component throws, so a handler has no error result.
\<close>

subsection \<open>Points\<close>

text \<open>\<open>interface Point {x: number; y: number}\<close>. The fields \<open>x\<close> and \<open>y\<close> are named
  \<open>point_x\<close> and \<open>point_y\<close>, since \<open>x\<close> and \<open>y\<close> are wanted as variables.\<close>

record 'n Point =
  point_x :: 'n
  point_y :: 'n

text \<open>The part of a \<open>GestureResponderEvent\<close> that the handlers read:
  \<open>event.nativeEvent.locationX\<close> and \<open>event.nativeEvent.locationY\<close>.\<close>

record 'n NativeEvent =
  locationX :: 'n
  locationY :: 'n

subsection \<open>Array.prototype.join\<close>

text \<open>\<open>xs.join(sep)\<close> on an array of strings: the elements in order with \<open>sep\<close> between
  neighbours; the empty string for the empty array.\<close>

fun join :: "string list \<Rightarrow> string \<Rightarrow> string" where
  "join [] sep = []"
| "join [a] sep = a"
| "join (a # b # rest) sep = a @ sep @ join (b # rest) sep"

subsection \<open>PanResponderSignature: pointsToSVGPath\<close>

text \<open>The body of the \<open>for\<close> loop of \<open>pointsToSVGPath\<close>, from the loop test on: \<open>i\<close> is the
  loop variable and \<open>path\<close> the string built so far. Inside the loop \<open>1 \<le> i < length points\<close>,
  so both reads of \<open>points\<close> are in range.\<close>

function pointsToSVGPath_loop ::
  "('n::{inverse,numeral} \<Rightarrow> string) \<Rightarrow> 'n Point list \<Rightarrow> nat \<Rightarrow> string \<Rightarrow> string" where
  "pointsToSVGPath_loop str points i path =
     (if i < length points then
        (let prevPoint = points ! (i - 1);
             currentPoint = points ! i;
             controlX = (point_x prevPoint + point_x currentPoint) / 2;
             controlY = (point_y prevPoint + point_y currentPoint) / 2
         in pointsToSVGPath_loop str points (i + 1)
              (path @ ''Q'' @ str (point_x prevPoint) @ '','' @ str (point_y prevPoint)
                    @ '' '' @ str controlX @ '','' @ str controlY))
      else path)"
  by pat_completeness auto
termination
  by (relation "measure (\<lambda>(str, points, i, path). length points - i)") auto

declare pointsToSVGPath_loop.simps [simp del]

definition pointsToSVGPath :: "('n::{inverse,numeral} \<Rightarrow> string) \<Rightarrow> 'n Point list \<Rightarrow> string" where
  "pointsToSVGPath str points =
     (if length points = 0 then ''''
      else if length points = 1 then
        ''M'' @ str (point_x (points ! 0)) @ '','' @ str (point_y (points ! 0))
      else pointsToSVGPath_loop str points 1
             (''M'' @ str (point_x (points ! 0)) @ '','' @ str (point_y (points ! 0))))"

subsection \<open>PanResponderSignature: state and handlers\<close>

record 'n PanResponderSignature =
  completedPaths :: "string list"
  currentPath :: string
  currentPoints :: "'n Point list"
  isDrawing :: bool
  notified :: "string list"

text \<open>The state at mount: \<open>useState([])\<close>, \<open>useState('')\<close>, \<open>useRef([])\<close>, \<open>useState(false)\<close>,
  and no callback made yet.\<close>

definition mounted :: "'n PanResponderSignature" where
  "mounted = \<lparr>completedPaths = [], currentPath = '''', currentPoints = [],
              isDrawing = False, notified = []\<rparr>"

definition addPoint ::
  "('n::{inverse,numeral} \<Rightarrow> string) \<Rightarrow> 'n PanResponderSignature \<Rightarrow> 'n \<Rightarrow> 'n
     \<Rightarrow> 'n PanResponderSignature" where
  "addPoint str s x y =
     (let newPoint = \<lparr>point_x = x, point_y = y\<rparr>;
          s1 = s\<lparr>currentPoints := currentPoints s @ [newPoint]\<rparr>;
          pathData = pointsToSVGPath str (currentPoints s1)
      in s1\<lparr>currentPath := pathData\<rparr>)"

definition startStroke ::
  "('n::{inverse,numeral} \<Rightarrow> string) \<Rightarrow> 'n PanResponderSignature \<Rightarrow> 'n NativeEvent
     \<Rightarrow> 'n PanResponderSignature" where
  "startStroke str s event =
     addPoint str (s\<lparr>isDrawing := True, currentPoints := []\<rparr>)
       (locationX event) (locationY event)"

definition continueStroke ::
  "('n::{inverse,numeral} \<Rightarrow> string) \<Rightarrow> 'n PanResponderSignature \<Rightarrow> 'n NativeEvent
     \<Rightarrow> 'n PanResponderSignature" where
  "continueStroke str s event =
     (if \<not> isDrawing s then s
      else addPoint str s (locationX event) (locationY event))"

definition endStroke :: "'n PanResponderSignature \<Rightarrow> 'n PanResponderSignature" where
  "endStroke s =
     (if \<not> isDrawing s \<or> currentPath s = '''' then s
      else
        (let allPaths = completedPaths s @ [currentPath s]
         in s\<lparr>isDrawing := False,
               completedPaths := completedPaths s @ [currentPath s],
               notified := notified s @ [join allPaths '' ''],
               currentPath := '''',
               currentPoints := []\<rparr>))"

definition clearSignature :: "'n PanResponderSignature \<Rightarrow> 'n PanResponderSignature" where
  "clearSignature s =
     s\<lparr>completedPaths := [], currentPath := '''', currentPoints := [], isDrawing := False\<rparr>"

definition getSignatureData :: "'n PanResponderSignature \<Rightarrow> string" where
  "getSignatureData s =
     (let allPaths = (if currentPath s \<noteq> '''' then completedPaths s @ [currentPath s]
                      else completedPaths s)
      in join allPaths '' '')"

text \<open>What can happen to the component: the four callbacks of \<open>PanResponder.create\<close>
  (\<open>onPanResponderGrant\<close>, \<open>onPanResponderMove\<close>, \<open>onPanResponderRelease\<close>,
  \<open>onPanResponderTerminate\<close>) and a call of \<open>clearSignature\<close>.\<close>

datatype 'n action =
    Grant "'n NativeEvent"
  | Move "'n NativeEvent"
  | Release
  | Terminate
  | Clear

fun panResponder ::
  "('n::{inverse,numeral} \<Rightarrow> string) \<Rightarrow> 'n PanResponderSignature \<Rightarrow> 'n action
     \<Rightarrow> 'n PanResponderSignature" where
  "panResponder str s (Grant event) = startStroke str s event"
| "panResponder str s (Move event) = continueStroke str s event"
| "panResponder str s Release = endStroke s"
| "panResponder str s Terminate = endStroke s"
| "panResponder str s Clear = clearSignature s"

text \<open>The events of one stroke over the points \<open>p # ps\<close>: a grant at \<open>p\<close>, then a move at
  each further point. \<open>strokeEvents\<close> adds the release that ends the stroke.\<close>

definition touchAt :: "'n Point \<Rightarrow> 'n NativeEvent" where
  "touchAt p = \<lparr>locationX = point_x p, locationY = point_y p\<rparr>"

fun feedEvents :: "'n Point list \<Rightarrow> 'n action list" where
  "feedEvents [] = []"
| "feedEvents (p # ps) = Grant (touchAt p) # map (\<lambda>q. Move (touchAt q)) ps"

definition strokeEvents :: "'n Point list \<Rightarrow> 'n action list" where
  "strokeEvents ps = feedEvents ps @ [Release]"

subsection \<open>CustomSignature: state and handlers\<close>

text \<open>The component built on the gesture-handler API. Its \<open>currentPath\<close> is the \<open>useRef\<close> array of points
  (not a string as in \<open>PanResponderSignature\<close>), and it has an \<open>addPoint\<close> of its own; the
  names that clash carry the suffix \<open>_cs\<close>.\<close>

record 'n CustomSignature =
  pathData :: string
  paths :: "string list"
  currentPath_cs :: "'n Point list"
  notified_cs :: "string list"

definition mounted_cs :: "'n CustomSignature" where
  "mounted_cs = \<lparr>pathData = '''', paths = [], currentPath_cs = [], notified_cs = []\<rparr>"

definition addPoint_cs ::
  "('n::{inverse,numeral} \<Rightarrow> string) \<Rightarrow> 'n CustomSignature \<Rightarrow> 'n \<Rightarrow> 'n \<Rightarrow> 'n CustomSignature" where
  "addPoint_cs str s x y =
     (let s1 = s\<lparr>currentPath_cs := currentPath_cs s @ [\<lparr>point_x = x, point_y = y\<rparr>]\<rparr>;
          current = currentPath_cs s1
      in if length current = 1 then
           (let newPath = ''M'' @ str x @ '','' @ str y
            in s1\<lparr>pathData := newPath\<rparr>)
         else if length current \<ge> 2 then
           (let prevPoint = current ! (length current - 2);
                currentPoint = current ! (length current - 1);
                controlX = (point_x prevPoint + point_x currentPoint) / 2;
                controlY = (point_y prevPoint + point_y currentPoint) / 2;
                newPathSegment =
                  ''Q'' @ str (point_x prevPoint) @ '','' @ str (point_y prevPoint)
                    @ '' '' @ str controlX @ '','' @ str controlY
            in s1\<lparr>pathData := pathData s1 @ newPathSegment\<rparr>)
         else s1)"

definition finalizePath :: "'n CustomSignature \<Rightarrow> 'n CustomSignature" where
  "finalizePath s =
     (if pathData s \<noteq> '''' then
        (let allPaths = join (paths s @ [pathData s]) '' ''
         in s\<lparr>paths := paths s @ [pathData s],
               notified_cs := notified_cs s @ [allPaths],
               pathData := '''',
               currentPath_cs := []\<rparr>)
      else s)"

text \<open>The two callbacks of \<open>Gesture.Pan()\<close>: \<open>onUpdate\<close>, with \<open>event.x\<close> and \<open>event.y\<close>, and
  \<open>onEnd\<close>.\<close>

datatype 'n gesture =
    OnUpdate 'n 'n
  | OnEnd

fun panGesture ::
  "('n::{inverse,numeral} \<Rightarrow> string) \<Rightarrow> 'n CustomSignature \<Rightarrow> 'n gesture \<Rightarrow> 'n CustomSignature" where
  "panGesture str s (OnUpdate x y) = addPoint_cs str s x y"
| "panGesture str s OnEnd = finalizePath s"

definition updatesAt :: "'n Point list \<Rightarrow> 'n gesture list" where
  "updatesAt ps = map (\<lambda>p. OnUpdate (point_x p) (point_y p)) ps"

subsection \<open>The curve path in the specification's words\<close>

text \<open>The specification describes the output as a list of commands: a move to the first
  point, then for each \<open>i\<close> from 1 a quadratic curve whose anchor is point \<open>i - 1\<close> and
  whose destination is the midpoint of points \<open>i - 1\<close> and \<open>i\<close>; nothing for no points.
  \<open>svg\<close> writes one command in the \<open>M\<close>/\<open>Q\<close> syntax of an SVG \<open>d\<close> attribute.\<close>

datatype 'n command =
    MoveTo "'n Point"
  | QuadraticCurveTo "'n Point" "'n Point"

definition midpoint :: "'n::{inverse,numeral} Point \<Rightarrow> 'n Point \<Rightarrow> 'n Point" where
  "midpoint p q =
     \<lparr>point_x = (point_x p + point_x q) / 2, point_y = (point_y p + point_y q) / 2\<rparr>"

definition spec_curvePath :: "'n::{inverse,numeral} Point list \<Rightarrow> 'n command list" where
  "spec_curvePath ps =
     (if ps = [] then []
      else MoveTo (ps ! 0) #
           map (\<lambda>i. QuadraticCurveTo (ps ! (i - 1)) (midpoint (ps ! (i - 1)) (ps ! i)))
             [1..<length ps])"

fun svg :: "('n \<Rightarrow> string) \<Rightarrow> 'n command \<Rightarrow> string" where
  "svg str (MoveTo p) = ''M'' @ str (point_x p) @ '','' @ str (point_y p)"
| "svg str (QuadraticCurveTo a d) =
     ''Q'' @ str (point_x a) @ '','' @ str (point_y a)
       @ '' '' @ str (point_x d) @ '','' @ str (point_y d)"

definition spec_serialize :: "('n \<Rightarrow> string) \<Rightarrow> 'n command list \<Rightarrow> string" where
  "spec_serialize str cs = concat (map (svg str) cs)"

subsection \<open>Numbers as text, for the concrete runs\<close>

text \<open>The closed examples below run the components on real numbers with
  \<open>numberToString\<close>, which writes a number as JavaScript's \<open>Number::toString\<close> does for the
  values the examples use: an optional minus sign, the digits of the whole part, and,
  when there is a fractional part, a point and its digits. It agrees with JavaScript on
  zero and on the numbers of magnitude from \<open>10\<^sup>-\<^sup>6\<close> up to, not including, \<open>10\<^sup>2\<^sup>1\<close> whose
  decimal expansion ends within fifteen significant digits (where JavaScript prints the
  shortest digits that read back as the same double, or an exponent, the two differ). On the values of the examples the
  arithmetic of doubles is exact and is that of the reals.\<close>

text \<open>The character of a decimal digit. Every call below passes a digit below ten; the
  remainder only keeps the read of the ten-character string in range.\<close>

definition digitChar :: "nat \<Rightarrow> char" where
  "digitChar d = ''0123456789'' ! (d mod 10)"

function natToString :: "nat \<Rightarrow> string" where
  "natToString n =
     (if n < 10 then [digitChar n] else natToString (n div 10) @ [digitChar (n mod 10)])"
  by pat_completeness auto
termination
  by (relation "measure id") auto

declare natToString.simps [simp del]

fun fractionDigits :: "nat \<Rightarrow> real \<Rightarrow> string" where
  "fractionDigits 0 f = []"
| "fractionDigits (Suc k) f =
     (if f = 0 then []
      else digitChar (nat \<lfloor>f * 10\<rfloor>) # fractionDigits k (f * 10 - of_int \<lfloor>f * 10\<rfloor>))"

definition numberToString :: "real \<Rightarrow> string" where
  "numberToString v =
     (let a = \<bar>v\<bar>; whole = \<lfloor>a\<rfloor>; f = a - of_int whole
      in (if v < 0 then ''-'' else '''') @ natToString (nat whole)
           @ (if f = 0 then '''' else ''.'' @ fractionDigits 17 f))"

text \<open>One curve command as both components write it: the text appended for the step
  from point \<open>p\<close> to point \<open>q\<close>.\<close>

definition segment :: "('n::{inverse,numeral} \<Rightarrow> string) \<Rightarrow> 'n Point \<Rightarrow> 'n Point \<Rightarrow> string" where
  "segment str p q =
     ''Q'' @ str (point_x p) @ '','' @ str (point_y p) @ '' ''
       @ str ((point_x p + point_x q) / 2) @ '','' @ str ((point_y p + point_y q) / 2)"

section \<open>Properties\<close>

subsection \<open>The loop of pointsToSVGPath\<close>

lemma pointsToSVGPath_loop_eq:
  "pointsToSVGPath_loop str points i path =
     path @ concat (map (\<lambda>k. segment str (points ! (k - 1)) (points ! k)) [i..<length points])"
proof (induction str points i path rule: pointsToSVGPath_loop.induct)
  case (1 str points i path)
  show ?case
  proof (cases "i < length points")
    case True
    then have "[i..<length points] = i # [i + 1..<length points]"
      by (simp add: upt_conv_Cons)
    with True 1 show ?thesis
      by (subst pointsToSVGPath_loop.simps) (simp add: Let_def segment_def)
  next
    case False
    then show ?thesis
      by (subst pointsToSVGPath_loop.simps) simp
  qed
qed

lemma pointsToSVGPath_Nil: "pointsToSVGPath str [] = []"
  by (simp add: pointsToSVGPath_def)

lemma pointsToSVGPath_eq:
  assumes ne: "points \<noteq> []"
  shows "pointsToSVGPath str points =
     ''M'' @ str (point_x (points ! 0)) @ '','' @ str (point_y (points ! 0))
       @ concat (map (\<lambda>k. segment str (points ! (k - 1)) (points ! k)) [1..<length points])"
proof (cases "length points = 1")
  case True
  then show ?thesis by (simp add: pointsToSVGPath_def)
next
  case False
  with ne show ?thesis
    by (simp add: pointsToSVGPath_def pointsToSVGPath_loop_eq)
qed

lemma pointsToSVGPath_single:
  "pointsToSVGPath str [p] = ''M'' @ str (point_x p) @ '','' @ str (point_y p)"
  by (simp add: pointsToSVGPath_def)

lemma pointsToSVGPath_nonempty: "ps \<noteq> [] \<Longrightarrow> pointsToSVGPath str ps \<noteq> []"
  by (simp add: pointsToSVGPath_eq)

lemma pointsToSVGPath_snoc:
  assumes "ps \<noteq> []"
  shows "pointsToSVGPath str (ps @ [q]) = pointsToSVGPath str ps @ segment str (last ps) q"
proof -
  let ?f = "\<lambda>xs k. segment str (xs ! (k - 1)) (xs ! k)"
  have len: "0 < length ps" using assms by simp
  have upt: "[1..<length (ps @ [q])] = [1..<length ps] @ [length ps]"
    using len by (simp add: Suc_leI)
  have m: "map (?f (ps @ [q])) [1..<length ps] = map (?f ps) [1..<length ps]"
    by (rule map_cong) (auto simp: nth_append)
  have l: "?f (ps @ [q]) (length ps) = segment str (last ps) q"
    using assms len by (simp add: nth_append last_conv_nth)
  have h: "(ps @ [q]) ! 0 = ps ! 0"
    using len by (simp add: nth_append)
  have "concat (map (?f (ps @ [q])) [1..<length (ps @ [q])])
      = concat (map (?f ps) [1..<length ps]) @ segment str (last ps) q"
    unfolding upt map_append concat_append m using l by simp
  moreover have "pointsToSVGPath str (ps @ [q]) =
     ''M'' @ str (point_x (ps ! 0)) @ '','' @ str (point_y (ps ! 0))
       @ concat (map (?f (ps @ [q])) [1..<length (ps @ [q])])"
    using pointsToSVGPath_eq [of "ps @ [q]" str] h by simp
  moreover have "pointsToSVGPath str ps =
     ''M'' @ str (point_x (ps ! 0)) @ '','' @ str (point_y (ps ! 0))
       @ concat (map (?f ps) [1..<length ps])"
    using pointsToSVGPath_eq [OF assms, of str] by simp
  ultimately show ?thesis by simp
qed

lemma pointsToSVGPath_spec:
  "pointsToSVGPath str ps = spec_serialize str (spec_curvePath ps)"
proof (cases "ps = []")
  case True
  then show ?thesis
    by (simp add: pointsToSVGPath_Nil spec_serialize_def spec_curvePath_def)
next
  case False
  have "spec_serialize str (spec_curvePath ps) =
     svg str (MoveTo (ps ! 0)) @
     concat (map (\<lambda>i. svg str (QuadraticCurveTo (ps ! (i - 1)) (midpoint (ps ! (i - 1)) (ps ! i))))
       [1..<length ps])"
    using False by (simp add: spec_serialize_def spec_curvePath_def comp_def del: upt.simps)
  then show ?thesis
    using False by (simp add: pointsToSVGPath_eq segment_def midpoint_def del: upt.simps)
qed

subsection \<open>PanResponderSignature: a stroke, event by event\<close>

lemma addPoint_fields:
  "completedPaths (addPoint str s x y) = completedPaths s"
  "currentPoints (addPoint str s x y) = currentPoints s @ [\<lparr>point_x = x, point_y = y\<rparr>]"
  "currentPath (addPoint str s x y) =
     pointsToSVGPath str (currentPoints s @ [\<lparr>point_x = x, point_y = y\<rparr>])"
  "isDrawing (addPoint str s x y) = isDrawing s"
  "notified (addPoint str s x y) = notified s"
  by (simp_all add: addPoint_def Let_def)

lemma startStroke_fields:
  "completedPaths (startStroke str s e) = completedPaths s"
  "currentPoints (startStroke str s e) = [\<lparr>point_x = locationX e, point_y = locationY e\<rparr>]"
  "currentPath (startStroke str s e) = ''M'' @ str (locationX e) @ '','' @ str (locationY e)"
  "isDrawing (startStroke str s e) = True"
  "notified (startStroke str s e) = notified s"
  by (simp_all add: startStroke_def addPoint_fields pointsToSVGPath_single)

lemma touchAt_point [simp]:
  "\<lparr>point_x = locationX (touchAt p), point_y = locationY (touchAt p)\<rparr> = p"
  by (simp add: touchAt_def)

lemma feedEvents_fields:
  fixes s :: "'n::{inverse,numeral} PanResponderSignature"
  defines "t \<equiv> \<lambda>str p qs. foldl (panResponder str) s (feedEvents (p # qs))"
  shows "completedPaths (t str p qs) = completedPaths s
       \<and> currentPoints (t str p qs) = p # qs
       \<and> currentPath (t str p qs) = pointsToSVGPath str (p # qs)
       \<and> isDrawing (t str p qs)
       \<and> notified (t str p qs) = notified s"
proof (induction qs rule: rev_induct)
  case Nil
  show ?case
    by (simp add: t_def startStroke_fields pointsToSVGPath_single touchAt_def)
next
  case (snoc q qs)
  have step: "t str p (qs @ [q]) = continueStroke str (t str p qs) (touchAt q)"
    by (simp add: t_def)
  from snoc show ?case
    unfolding step by (simp add: continueStroke_def addPoint_fields)
qed

lemma strokeEvents_fields:
  fixes s :: "'n::{inverse,numeral} PanResponderSignature"
  defines "u \<equiv> \<lambda>str ps. foldl (panResponder str) s (strokeEvents ps)"
  assumes "ps \<noteq> []"
  shows "completedPaths (u str ps) = completedPaths s @ [pointsToSVGPath str ps]
       \<and> currentPoints (u str ps) = []
       \<and> currentPath (u str ps) = []
       \<and> \<not> isDrawing (u str ps)
       \<and> notified (u str ps) =
           notified s @ [join (completedPaths s @ [pointsToSVGPath str ps]) '' '']"
proof -
  from assms(2) obtain p qs where ps: "ps = p # qs" by (cases ps) auto
  have step: "u str ps = endStroke (foldl (panResponder str) s (feedEvents (p # qs)))"
    by (simp add: u_def strokeEvents_def ps)
  have ne: "pointsToSVGPath str (p # qs) \<noteq> []"
    by (rule pointsToSVGPath_nonempty) simp
  show ?thesis
    unfolding step using feedEvents_fields [of str s p qs] ne
    by (simp add: endStroke_def Let_def ps)
qed

subsection \<open>CustomSignature: the path kept in step with the points\<close>

lemma addPoint_cs_fields:
  "paths (addPoint_cs str s x y) = paths s"
  "currentPath_cs (addPoint_cs str s x y) = currentPath_cs s @ [\<lparr>point_x = x, point_y = y\<rparr>]"
  "notified_cs (addPoint_cs str s x y) = notified_cs s"
  by (simp_all add: addPoint_cs_def Let_def)

lemma addPoint_cs_pathData:
  "pathData (addPoint_cs str s x y) =
     (if currentPath_cs s = [] then ''M'' @ str x @ '','' @ str y
      else pathData s @ segment str (last (currentPath_cs s)) \<lparr>point_x = x, point_y = y\<rparr>)"
proof (cases "currentPath_cs s = []")
  case True
  then show ?thesis by (simp add: addPoint_cs_def Let_def)
next
  case False
  then have "length (currentPath_cs s) \<ge> 1" by (simp add: Suc_leI)
  moreover have "(currentPath_cs s @ [\<lparr>point_x = x, point_y = y\<rparr>]) ! (length (currentPath_cs s) - 1)
      = last (currentPath_cs s)"
    using False by (simp add: nth_append last_conv_nth)
  ultimately show ?thesis
    using False by (simp add: addPoint_cs_def Let_def segment_def)
qed

lemma addPoint_cs_in_step:
  assumes "pathData s = pointsToSVGPath str (currentPath_cs s)"
  shows "pathData (addPoint_cs str s x y) = pointsToSVGPath str (currentPath_cs (addPoint_cs str s x y))"
proof (cases "currentPath_cs s = []")
  case True
  then show ?thesis
    by (simp add: addPoint_cs_pathData addPoint_cs_fields pointsToSVGPath_single)
next
  case False
  then show ?thesis
    using assms by (simp add: addPoint_cs_pathData addPoint_cs_fields pointsToSVGPath_snoc)
qed

lemma finalizePath_in_step:
  assumes "pathData s = pointsToSVGPath str (currentPath_cs s)"
  shows "pathData (finalizePath s) = pointsToSVGPath str (currentPath_cs (finalizePath s))"
  using assms by (simp add: finalizePath_def Let_def pointsToSVGPath_Nil)

lemma panGesture_in_step:
  assumes "pathData s = pointsToSVGPath str (currentPath_cs s)"
  shows "pathData (panGesture str s g) = pointsToSVGPath str (currentPath_cs (panGesture str s g))"
  using assms by (cases g) (simp_all add: addPoint_cs_in_step finalizePath_in_step)

lemma updatesAt_fields:
  fixes s :: "'n::{inverse,numeral} CustomSignature"
  defines "t \<equiv> \<lambda>str ps. foldl (panGesture str) s (updatesAt ps)"
  shows "paths (t str ps) = paths s
       \<and> currentPath_cs (t str ps) = currentPath_cs s @ ps
       \<and> notified_cs (t str ps) = notified_cs s"
proof (induction ps rule: rev_induct)
  case Nil
  show ?case by (simp add: t_def updatesAt_def)
next
  case (snoc q qs)
  have step: "t str (qs @ [q]) = addPoint_cs str (t str qs) (point_x q) (point_y q)"
    by (simp add: t_def updatesAt_def)
  from snoc show ?case
    unfolding step by (simp add: addPoint_cs_fields)
qed

lemma foldl_panGesture_in_step:
  assumes "pathData s = pointsToSVGPath str (currentPath_cs s)"
  shows "pathData (foldl (panGesture str) s gs) =
           pointsToSVGPath str (currentPath_cs (foldl (panGesture str) s gs))"
  using assms by (induction gs rule: rev_induct) (simp_all add: panGesture_in_step)

lemma updatesAt_pathData:
  "pathData (foldl (panGesture str) mounted_cs (updatesAt ps)) = pointsToSVGPath str ps"
proof -
  have "pathData (mounted_cs :: 'a CustomSignature) = pointsToSVGPath str (currentPath_cs (mounted_cs :: 'a CustomSignature))"
    by (simp add: mounted_cs_def pointsToSVGPath_Nil)
  then have "pathData (foldl (panGesture str) mounted_cs (updatesAt ps)) =
      pointsToSVGPath str (currentPath_cs (foldl (panGesture str) mounted_cs (updatesAt ps)))"
    by (rule foldl_panGesture_in_step)
  also have "currentPath_cs (foldl (panGesture str) mounted_cs (updatesAt ps)) = ps"
    using updatesAt_fields [of str mounted_cs ps] by (simp add: mounted_cs_def)
  finally show ?thesis .
qed

lemma gesture_stroke_paths:
  assumes "ps \<noteq> []"
  shows "paths (foldl (panGesture str) mounted_cs (updatesAt ps @ [OnEnd])) = [pointsToSVGPath str ps]"
proof -
  have "paths (foldl (panGesture str) mounted_cs (updatesAt ps)) = []"
    using updatesAt_fields [of str mounted_cs ps] by (simp add: mounted_cs_def)
  moreover have "pointsToSVGPath str ps \<noteq> []"
    using assms by (rule pointsToSVGPath_nonempty)
  ultimately show ?thesis
    by (simp add: finalizePath_def Let_def updatesAt_pathData)
qed

lemma feedEvents_currentPath:
  "currentPath (foldl (panResponder str) mounted (feedEvents ps)) = pointsToSVGPath str ps"
proof (cases ps)
  case Nil
  then show ?thesis by (simp add: mounted_def pointsToSVGPath_Nil)
next
  case (Cons p qs)
  then show ?thesis using feedEvents_fields [of str mounted p qs] by simp
qed

subsection \<open>Counting commands in a path string\<close>

lemma count_segment_Q:
  assumes "\<forall>n. CHR ''Q'' \<notin> set (str n)"
  shows "count_list (segment str p q) CHR ''Q'' = 1"
  using assms by (simp add: segment_def count_list_0_iff)

lemma count_segment_M:
  assumes "\<forall>n. CHR ''M'' \<notin> set (str n)"
  shows "count_list (segment str p q) CHR ''M'' = 0"
  using assms by (simp add: segment_def count_list_0_iff)

lemma count_pointsToSVGPath:
  assumes "\<forall>n. CHR ''M'' \<notin> set (str n) \<and> CHR ''Q'' \<notin> set (str n)"
    and "ps \<noteq> []"
  shows "count_list (pointsToSVGPath str ps) CHR ''M'' = 1
       \<and> count_list (pointsToSVGPath str ps) CHR ''Q'' = length ps - 1"
  using assms(2)
proof (induction ps rule: rev_induct)
  case Nil
  then show ?case by simp
next
  case (snoc q qs)
  show ?case
  proof (cases "qs = []")
    case True
    then show ?thesis
      using assms(1) by (simp add: pointsToSVGPath_single count_list_0_iff)
  next
    case False
    with snoc have "count_list (pointsToSVGPath str qs) CHR ''M'' = 1"
      and "count_list (pointsToSVGPath str qs) CHR ''Q'' = length qs - 1"
      by simp_all
    moreover have "0 < length qs" using False by simp
    ultimately show ?thesis
      using False assms(1)
      by (simp add: pointsToSVGPath_snoc count_segment_Q count_segment_M)
  qed
qed

lemma pointsToSVGPath_prefix:
  assumes "ps \<noteq> []"
  shows "prefix (svg str (MoveTo (ps ! 0))) (pointsToSVGPath str ps)"
  using assms by (simp add: pointsToSVGPath_eq prefix_def)

subsection \<open>The characters of numberToString\<close>

lemma digitChar_in: "digitChar d \<in> set ''0123456789''"
proof -
  have "d mod 10 < length ''0123456789''" by simp
  then show ?thesis unfolding digitChar_def by (rule nth_mem)
qed

lemma natToString_chars: "set (natToString n) \<subseteq> set ''0123456789''"
proof (induction n rule: natToString.induct)
  case (1 n)
  show ?case
  proof (cases "n < 10")
    case True
    then show ?thesis
      using digitChar_in [of n] by (subst natToString.simps) simp
  next
    case False
    with 1 have "set (natToString (n div 10)) \<subseteq> set ''0123456789''" by simp
    with False show ?thesis
      using digitChar_in [of "n mod 10"] by (subst natToString.simps) simp
  qed
qed

lemma fractionDigits_chars: "set (fractionDigits k f) \<subseteq> set ''0123456789''"
proof -
  define D where "D = set ''0123456789''"
  have d: "digitChar n \<in> D" for n
    unfolding D_def by (rule digitChar_in)
  have "set (fractionDigits k f) \<subseteq> D"
  proof (induction k arbitrary: f)
    case 0
    show ?case by simp
  next
    case (Suc k)
    show ?case
      using d [of "nat \<lfloor>f * 10\<rfloor>"] Suc [of "f * 10 - of_int \<lfloor>f * 10\<rfloor>"]
      by simp
  qed
  then show ?thesis by (simp only: D_def)
qed

lemma numberToString_chars:
  "set (numberToString v) \<subseteq> insert CHR ''-'' (insert CHR ''.'' (set ''0123456789''))"
proof -
  define D where "D = set ''0123456789''"
  have n: "set (natToString (nat \<lfloor>\<bar>v\<bar>\<rfloor>)) \<subseteq> D"
    unfolding D_def by (rule natToString_chars)
  have f: "set (fractionDigits 17 (\<bar>v\<bar> - of_int \<lfloor>\<bar>v\<bar>\<rfloor>)) \<subseteq> D"
    unfolding D_def by (rule fractionDigits_chars)
  have "set (numberToString v) \<subseteq> insert CHR ''-'' (insert CHR ''.'' D)"
    using n f by (auto simp: numberToString_def Let_def)
  then show ?thesis by (simp only: D_def)
qed

lemma numberToString_no_command_letter:
  "CHR ''M'' \<notin> set (numberToString v) \<and> CHR ''Q'' \<notin> set (numberToString v)"
proof -
  have "CHR ''M'' \<notin> insert CHR ''-'' (insert CHR ''.'' (set ''0123456789''))"
    and "CHR ''Q'' \<notin> insert CHR ''-'' (insert CHR ''.'' (set ''0123456789''))"
    by simp_all
  then show ?thesis using numberToString_chars [of v] by blast
qed

subsection \<open>The list of completed paths\<close>

lemma endStroke_completedPaths:
  "completedPaths (endStroke s) =
     (if isDrawing s \<and> currentPath s \<noteq> [] then completedPaths s @ [currentPath s]
      else completedPaths s)"
  by (simp add: endStroke_def Let_def)

lemma panResponder_completedPaths:
  assumes "a \<noteq> Clear"
  shows "completedPaths (panResponder str s a) = completedPaths s
       \<or> completedPaths (panResponder str s a) = completedPaths s @ [currentPath s]"
  using assms
  by (cases a) (simp_all add: startStroke_fields continueStroke_def addPoint_fields
      endStroke_completedPaths)

lemma panResponder_prefix:
  assumes "a \<noteq> Clear"
  shows "prefix (completedPaths s) (completedPaths (panResponder str s a))"
  using panResponder_completedPaths [OF assms, of str s] by (auto simp: prefix_def)

lemma foldl_panResponder_prefix:
  assumes "Clear \<notin> set as"
  shows "prefix (completedPaths s) (completedPaths (foldl (panResponder str) s as))"
  using assms
proof (induction as rule: rev_induct)
  case Nil
  show ?case by simp
next
  case (snoc a as)
  then have "prefix (completedPaths s) (completedPaths (foldl (panResponder str) s as))"
    and "a \<noteq> Clear"
    by auto
  moreover have "prefix (completedPaths (foldl (panResponder str) s as))
      (completedPaths (panResponder str (foldl (panResponder str) s as) a))"
    using \<open>a \<noteq> Clear\<close> by (rule panResponder_prefix)
  ultimately show ?case
    by (simp add: prefix_order.order_trans [of "completedPaths s"
          "completedPaths (foldl (panResponder str) s as)"])
qed

lemma panGesture_prefix: "prefix (paths c) (paths (panGesture str c g))"
  by (cases g) (simp_all add: addPoint_cs_fields finalizePath_def Let_def)

lemma two_strokes_fields:
  fixes s :: "'n::{inverse,numeral} PanResponderSignature" and str A B
  assumes "A \<noteq> []" and "B \<noteq> []"
  defines "r \<equiv> foldl (panResponder str) s (strokeEvents A @ strokeEvents B)"
  shows "completedPaths r = completedPaths s @ [pointsToSVGPath str A, pointsToSVGPath str B]"
    and "currentPath r = []"
proof -
  let ?m = "foldl (panResponder str) s (strokeEvents A)"
  have r: "r = foldl (panResponder str) ?m (strokeEvents B)"
    by (simp add: r_def)
  have "completedPaths ?m = completedPaths s @ [pointsToSVGPath str A]"
    using strokeEvents_fields [OF assms(1), of str s] by simp
  then show "completedPaths r = completedPaths s @ [pointsToSVGPath str A, pointsToSVGPath str B]"
    unfolding r using strokeEvents_fields [OF assms(2), of str ?m] by simp
  show "currentPath r = []"
    unfolding r using strokeEvents_fields [OF assms(2), of str ?m] by simp
qed

subsection \<open>CustomSignature: the list of completed paths\<close>

lemma finalizePath_paths:
  "paths (finalizePath c) = (if pathData c \<noteq> [] then paths c @ [pathData c] else paths c)"
  by (simp add: finalizePath_def Let_def)

lemma panGesture_paths:
  "paths (panGesture str c g) =
     (if g = OnEnd \<and> pathData c \<noteq> [] then paths c @ [pathData c] else paths c)"
  by (cases g) (simp_all add: addPoint_cs_fields finalizePath_paths)

lemma foldl_panGesture_prefix:
  "prefix (paths c) (paths (foldl (panGesture str) c gs))"
proof (induction gs rule: rev_induct)
  case Nil
  show ?case by simp
next
  case (snoc g gs)
  have "prefix (paths (foldl (panGesture str) c gs))
      (paths (panGesture str (foldl (panGesture str) c gs) g))"
    by (rule panGesture_prefix)
  with snoc show ?case
    by (simp add: prefix_order.order_trans [of "paths c" "paths (foldl (panGesture str) c gs)"])
qed

lemma updatesAt_pathData_from_empty:
  assumes "currentPath_cs c = []" and "ps \<noteq> []"
  shows "pathData (foldl (panGesture str) c (updatesAt ps)) = pointsToSVGPath str ps"
  using assms(2)
proof (induction ps rule: rev_induct)
  case Nil
  then show ?case by simp
next
  case (snoc q qs)
  let ?t = "foldl (panGesture str) c (updatesAt qs)"
  have step: "foldl (panGesture str) c (updatesAt (qs @ [q])) =
      addPoint_cs str ?t (point_x q) (point_y q)"
    by (simp add: updatesAt_def)
  have buf: "currentPath_cs ?t = qs"
    using updatesAt_fields [of str c qs] assms(1) by simp
  have q: "\<lparr>point_x = point_x q, point_y = point_y q\<rparr> = q"
    by simp
  show ?case
  proof (cases "qs = []")
    case True
    then show ?thesis
      unfolding step
      by (simp add: addPoint_cs_pathData updatesAt_def assms(1) pointsToSVGPath_single)
  next
    case False
    with snoc have "pathData ?t = pointsToSVGPath str qs" by simp
    with False show ?thesis
      unfolding step by (simp add: addPoint_cs_pathData buf pointsToSVGPath_snoc q)
  qed
qed

lemma gesture_stroke_fields:
  fixes c :: "'n::{inverse,numeral} CustomSignature" and str ps
  defines "r \<equiv> foldl (panGesture str) c (updatesAt ps @ [OnEnd])"
  assumes "currentPath_cs c = []" and "ps \<noteq> []"
  shows "paths r = paths c @ [pointsToSVGPath str ps]
       \<and> pathData r = []
       \<and> currentPath_cs r = []
       \<and> notified_cs r = notified_cs c @ [join (paths c @ [pointsToSVGPath str ps]) '' '']"
proof -
  let ?t = "foldl (panGesture str) c (updatesAt ps)"
  have r: "r = finalizePath ?t"
    by (simp add: r_def)
  have "pathData ?t = pointsToSVGPath str ps"
    using assms(2,3) by (rule updatesAt_pathData_from_empty)
  moreover have "pointsToSVGPath str ps \<noteq> []"
    using assms(3) by (rule pointsToSVGPath_nonempty)
  moreover have "paths ?t = paths c \<and> notified_cs ?t = notified_cs c"
    using updatesAt_fields [of str c ps] by simp
  ultimately show ?thesis
    unfolding r by (simp add: finalizePath_def Let_def)
qed

lemma two_gesture_strokes_fields:
  fixes c :: "'n::{inverse,numeral} CustomSignature" and str A B
  defines "r \<equiv> foldl (panGesture str) c (updatesAt A @ [OnEnd] @ updatesAt B @ [OnEnd])"
  assumes "currentPath_cs c = []" and "A \<noteq> []" and "B \<noteq> []"
  shows "paths r = paths c @ [pointsToSVGPath str A, pointsToSVGPath str B]
       \<and> pathData r = []
       \<and> notified_cs r = notified_cs c
           @ [join (paths c @ [pointsToSVGPath str A]) '' '',
              join (paths c @ [pointsToSVGPath str A, pointsToSVGPath str B]) '' '']"
proof -
  let ?m = "foldl (panGesture str) c (updatesAt A @ [OnEnd])"
  have r: "r = foldl (panGesture str) ?m (updatesAt B @ [OnEnd])"
    by (simp add: r_def)
  have m: "paths ?m = paths c @ [pointsToSVGPath str A]
       \<and> pathData ?m = []
       \<and> currentPath_cs ?m = []
       \<and> notified_cs ?m = notified_cs c @ [join (paths c @ [pointsToSVGPath str A]) '' '']"
    using assms(2,3) by (rule gesture_stroke_fields)
  then have "currentPath_cs ?m = []" by blast
  then have "paths (foldl (panGesture str) ?m (updatesAt B @ [OnEnd])) =
         paths ?m @ [pointsToSVGPath str B]
       \<and> pathData (foldl (panGesture str) ?m (updatesAt B @ [OnEnd])) = []
       \<and> currentPath_cs (foldl (panGesture str) ?m (updatesAt B @ [OnEnd])) = []
       \<and> notified_cs (foldl (panGesture str) ?m (updatesAt B @ [OnEnd])) =
         notified_cs ?m @ [join (paths ?m @ [pointsToSVGPath str B]) '' '']"
    using assms(4) by (rule gesture_stroke_fields)
  with m show ?thesis
    unfolding r by simp
qed

section \<open>The claims\<close>

text \<open>C1. For a stroke over the points \<open>p\<^sub>0 \<dots> p\<^sub>N\<^sub>-\<^sub>1\<close> with \<open>N \<ge> 2\<close>, the path that the
  stroke leaves in the list of completed paths is the text of the command list of the
  specification: one move to \<open>p\<^sub>0\<close>, then for each \<open>i\<close> from 1 to \<open>N - 1\<close> a quadratic curve
  with anchor \<open>p\<^sub>i\<^sub>-\<^sub>1\<close> and destination the midpoint of \<open>p\<^sub>i\<^sub>-\<^sub>1\<close> and \<open>p\<^sub>i\<close>. This holds for
  \<open>PanResponderSignature\<close> (grant, moves, release), for \<open>CustomSignature\<close> (updates, end)
  and for \<open>pointsToSVGPath\<close> itself.\<close>

theorem stroke_curve_path:
  assumes "2 \<le> length ps"
  shows "spec_curvePath ps =
           MoveTo (ps ! 0) #
           map (\<lambda>i. QuadraticCurveTo (ps ! (i - 1)) (midpoint (ps ! (i - 1)) (ps ! i)))
             [1..<length ps]
       \<and> pointsToSVGPath str ps = spec_serialize str (spec_curvePath ps)
       \<and> completedPaths (foldl (panResponder str) mounted (strokeEvents ps)) =
           [spec_serialize str (spec_curvePath ps)]
       \<and> paths (foldl (panGesture str) mounted_cs (updatesAt ps @ [OnEnd])) =
           [spec_serialize str (spec_curvePath ps)]"
proof -
  from assms have ne: "ps \<noteq> []" by auto
  have "completedPaths (foldl (panResponder str) mounted (strokeEvents ps)) =
      completedPaths (mounted :: 'a PanResponderSignature) @ [pointsToSVGPath str ps]"
    using strokeEvents_fields [OF ne, of str mounted] by simp
  then have pan: "completedPaths (foldl (panResponder str) mounted (strokeEvents ps)) =
      [pointsToSVGPath str ps]"
    by (simp add: mounted_def)
  have shape: "spec_curvePath ps =
      MoveTo (ps ! 0) #
      map (\<lambda>i. QuadraticCurveTo (ps ! (i - 1)) (midpoint (ps ! (i - 1)) (ps ! i)))
        [1..<length ps]"
    using ne by (simp add: spec_curvePath_def)
  show ?thesis
    using shape pan gesture_stroke_paths [OF ne, of str]
    by (simp only: pointsToSVGPath_spec simp_thms)
qed

theorem stroke_curve_path_witness:
  "spec_curvePath [\<lparr>point_x = 0, point_y = 0\<rparr>, \<lparr>point_x = 10, point_y = 0\<rparr>,
       \<lparr>point_x = 10, point_y = 10::real\<rparr>] =
     [MoveTo \<lparr>point_x = 0, point_y = 0\<rparr>,
      QuadraticCurveTo \<lparr>point_x = 0, point_y = 0\<rparr> \<lparr>point_x = 5, point_y = 0\<rparr>,
      QuadraticCurveTo \<lparr>point_x = 10, point_y = 0\<rparr> \<lparr>point_x = 10, point_y = 5\<rparr>]
   \<and> completedPaths (foldl (panResponder numberToString) mounted
         [Grant \<lparr>locationX = 0, locationY = 0\<rparr>, Move \<lparr>locationX = 10, locationY = 0\<rparr>,
          Move \<lparr>locationX = 10, locationY = 10\<rparr>, Release]) =
     [''M0,0Q0,0 5,0Q10,0 10,5'']
   \<and> paths (foldl (panGesture numberToString) mounted_cs
         [OnUpdate 0 0, OnUpdate 10 0, OnUpdate 10 10, OnEnd]) =
     [''M0,0Q0,0 5,0Q10,0 10,5'']"
proof -
  let ?ps = "[\<lparr>point_x = 0, point_y = 0\<rparr>, \<lparr>point_x = 10, point_y = 0\<rparr>,
       \<lparr>point_x = 10, point_y = 10::real\<rparr>]"
  have len: "2 \<le> length ?ps" by simp
  have cmds: "MoveTo (?ps ! 0) #
       map (\<lambda>i. QuadraticCurveTo (?ps ! (i - 1)) (midpoint (?ps ! (i - 1)) (?ps ! i)))
         [1..<length ?ps] =
     [MoveTo \<lparr>point_x = 0, point_y = 0\<rparr>,
      QuadraticCurveTo \<lparr>point_x = 0, point_y = 0\<rparr> \<lparr>point_x = 5, point_y = 0\<rparr>,
      QuadraticCurveTo \<lparr>point_x = 10, point_y = 0\<rparr> \<lparr>point_x = 10, point_y = 5\<rparr>]"
    by (simp add: midpoint_def upt_conv_Cons)
  have ser: "spec_serialize numberToString
       [MoveTo \<lparr>point_x = 0, point_y = 0\<rparr>,
        QuadraticCurveTo \<lparr>point_x = 0, point_y = 0\<rparr> \<lparr>point_x = 5, point_y = 0\<rparr>,
        QuadraticCurveTo \<lparr>point_x = 10, point_y = 0\<rparr> \<lparr>point_x = 10, point_y = 5\<rparr>] =
     ''M0,0Q0,0 5,0Q10,0 10,5''"
    by code_simp
  have events: "strokeEvents ?ps =
       [Grant \<lparr>locationX = 0, locationY = 0\<rparr>, Move \<lparr>locationX = 10, locationY = 0\<rparr>,
        Move \<lparr>locationX = 10, locationY = 10\<rparr>, Release]"
    by (simp add: strokeEvents_def touchAt_def)
  have updates: "updatesAt ?ps @ [OnEnd] =
       [OnUpdate 0 0, OnUpdate 10 0, OnUpdate 10 10, OnEnd]"
    by (simp add: updatesAt_def)
  show ?thesis
    using stroke_curve_path [OF len, of numberToString]
    unfolding cmds events updates by (simp only: ser simp_thms)
qed

text \<open>C2. For the \<open>N\<close> points of \<open>ps\<close> fed to one stroke, a grant at the first and a move
  at each of the others (or, in \<open>CustomSignature\<close>, an update at each), whatever the
  points are and so also when neighbours coincide: with \<open>N = 0\<close> the path in progress is
  empty; with \<open>N = 1\<close> it is the move command alone; with \<open>N \<ge> 2\<close> it starts with the move
  command to the first point, holds one \<open>M\<close> and holds \<open>N - 1\<close> letters \<open>Q\<close>, one per curve
  command. The text of a number holds neither letter.\<close>

theorem path_command_count:
  assumes "\<forall>n. CHR ''M'' \<notin> set (str n) \<and> CHR ''Q'' \<notin> set (str n)"
    and "path = currentPath (foldl (panResponder str) mounted (feedEvents ps))"
  shows "path = pathData (foldl (panGesture str) mounted_cs (updatesAt ps))
       \<and> (length ps = 0 \<longrightarrow> path = [])
       \<and> (length ps = 1 \<longrightarrow> path = svg str (MoveTo (ps ! 0)) \<and> count_list path CHR ''Q'' = 0)
       \<and> (2 \<le> length ps \<longrightarrow>
            prefix (svg str (MoveTo (ps ! 0))) path
            \<and> count_list path CHR ''M'' = 1
            \<and> count_list path CHR ''Q'' = length ps - 1)"
proof -
  have path: "path = pointsToSVGPath str ps"
    using assms(2) by (simp only: feedEvents_currentPath)
  have zero: "length ps = 0 \<longrightarrow> path = []"
    by (simp add: path pointsToSVGPath_Nil)
  have one: "length ps = 1 \<longrightarrow> path = svg str (MoveTo (ps ! 0)) \<and> count_list path CHR ''Q'' = 0"
  proof
    assume l: "length ps = 1"
    then have ne: "ps \<noteq> []" by auto
    from l have "path = svg str (MoveTo (ps ! 0))"
      by (simp add: path pointsToSVGPath_eq [OF ne])
    moreover have "count_list path CHR ''Q'' = 0"
      using count_pointsToSVGPath [OF assms(1) ne] l by (simp add: path)
    ultimately show "path = svg str (MoveTo (ps ! 0)) \<and> count_list path CHR ''Q'' = 0" ..
  qed
  have more: "2 \<le> length ps \<longrightarrow>
      prefix (svg str (MoveTo (ps ! 0))) path
      \<and> count_list path CHR ''M'' = 1 \<and> count_list path CHR ''Q'' = length ps - 1"
  proof
    assume "2 \<le> length ps"
    then have ne: "ps \<noteq> []" by auto
    show "prefix (svg str (MoveTo (ps ! 0))) path
      \<and> count_list path CHR ''M'' = 1 \<and> count_list path CHR ''Q'' = length ps - 1"
      using count_pointsToSVGPath [OF assms(1) ne] pointsToSVGPath_prefix [OF ne, of str]
      by (simp only: path simp_thms)
  qed
  show ?thesis
    using zero one more by (simp only: path updatesAt_pathData simp_thms)
qed

theorem path_command_count_witness:
  "pathData (foldl (panGesture numberToString) mounted_cs
       [OnUpdate 1 1, OnUpdate 1 1, OnUpdate 2 3]) =
     currentPath (foldl (panResponder numberToString) mounted
       [Grant \<lparr>locationX = 1, locationY = 1\<rparr>, Move \<lparr>locationX = 1, locationY = 1\<rparr>,
        Move \<lparr>locationX = 2, locationY = 3\<rparr>])
   \<and> currentPath (foldl (panResponder numberToString) mounted
       [Grant \<lparr>locationX = 1, locationY = 1\<rparr>, Move \<lparr>locationX = 1, locationY = 1\<rparr>,
        Move \<lparr>locationX = 2, locationY = 3\<rparr>]) = ''M1,1Q1,1 1,1Q1,1 1.5,2''
   \<and> prefix ''M1,1'' (currentPath (foldl (panResponder numberToString) mounted
       [Grant \<lparr>locationX = 1, locationY = 1\<rparr>, Move \<lparr>locationX = 1, locationY = 1\<rparr>,
        Move \<lparr>locationX = 2, locationY = 3\<rparr>]))
   \<and> count_list (currentPath (foldl (panResponder numberToString) mounted
       [Grant \<lparr>locationX = 1, locationY = 1\<rparr>, Move \<lparr>locationX = 1, locationY = 1\<rparr>,
        Move \<lparr>locationX = 2, locationY = 3\<rparr>])) CHR ''M'' = 1
   \<and> count_list (currentPath (foldl (panResponder numberToString) mounted
       [Grant \<lparr>locationX = 1, locationY = 1\<rparr>, Move \<lparr>locationX = 1, locationY = 1\<rparr>,
        Move \<lparr>locationX = 2, locationY = 3\<rparr>])) CHR ''Q'' = 2"
proof -
  let ?ps = "[\<lparr>point_x = 1, point_y = 1\<rparr>, \<lparr>point_x = 1, point_y = 1\<rparr>,
       \<lparr>point_x = 2, point_y = 3::real\<rparr>]"
  let ?cur = "currentPath (foldl (panResponder numberToString) mounted
       [Grant \<lparr>locationX = 1, locationY = 1\<rparr>, Move \<lparr>locationX = 1, locationY = 1\<rparr>,
        Move \<lparr>locationX = 2, locationY = 3\<rparr>])"
  have letters: "\<forall>n. CHR ''M'' \<notin> set (numberToString n) \<and> CHR ''Q'' \<notin> set (numberToString n)"
    using numberToString_no_command_letter by blast
  have events: "feedEvents ?ps =
       [Grant \<lparr>locationX = 1, locationY = 1\<rparr>, Move \<lparr>locationX = 1, locationY = 1\<rparr>,
        Move \<lparr>locationX = 2, locationY = 3\<rparr>]"
    by (simp add: touchAt_def)
  have updates: "updatesAt ?ps = [OnUpdate 1 1, OnUpdate 1 1, OnUpdate 2 3]"
    by (simp add: updatesAt_def)
  have move: "svg numberToString (MoveTo (?ps ! 0)) = ''M1,1''"
    by code_simp
  have val: "?cur = ''M1,1Q1,1 1,1Q1,1 1.5,2''"
    by code_simp
  have len: "length ?ps = 3" by simp
  have all: "?cur = pathData (foldl (panGesture numberToString) mounted_cs (updatesAt ?ps))
      \<and> (2 \<le> length ?ps \<longrightarrow>
            prefix (svg numberToString (MoveTo (?ps ! 0))) ?cur
            \<and> count_list ?cur CHR ''M'' = 1
            \<and> count_list ?cur CHR ''Q'' = length ?ps - 1)"
    using path_command_count [OF letters, of ?cur ?ps] unfolding events by blast
  from all have same: "pathData (foldl (panGesture numberToString) mounted_cs
         [OnUpdate 1 1, OnUpdate 1 1, OnUpdate 2 3]) = ?cur"
    unfolding updates by (simp only:)
  have "2 \<le> length ?ps" by simp
  with all have counts: "prefix (svg numberToString (MoveTo (?ps ! 0))) ?cur
      \<and> count_list ?cur CHR ''M'' = 1 \<and> count_list ?cur CHR ''Q'' = length ?ps - 1"
    by blast
  have starts: "prefix ''M1,1'' ?cur"
    using counts unfolding move by (rule conjunct1)
  have m: "count_list ?cur CHR ''M'' = 1"
    using counts by blast
  have "count_list ?cur CHR ''Q'' = length ?ps - 1"
    using counts by blast
  then have q: "count_list ?cur CHR ''Q'' = 2"
    unfolding len by simp
  from same val starts m q show ?thesis by blast
qed

text \<open>C3. In \<open>CustomSignature\<close> the path of the stroke in progress is patched: \<open>addPoint\<close>
  appends one segment to \<open>pathData\<close> per new point. After every sequence of gesture
  callbacks from mount, so in particular after every single append, \<open>pathData\<close> is equal
  to the rebuild from scratch, \<open>pointsToSVGPath\<close> of all the points buffered so far.\<close>

theorem addPoint_patch_equals_rebuild:
  "pathData (foldl (panGesture str) mounted_cs gs) =
     pointsToSVGPath str (currentPath_cs (foldl (panGesture str) mounted_cs gs))"
proof (rule foldl_panGesture_in_step)
  show "pathData (mounted_cs :: 'a CustomSignature) =
          pointsToSVGPath str (currentPath_cs (mounted_cs :: 'a CustomSignature))"
    by (simp add: mounted_cs_def pointsToSVGPath_Nil)
qed

theorem addPoint_patch_equals_rebuild_witness:
  "pathData (foldl (panGesture numberToString) mounted_cs
       [OnUpdate 1 1, OnEnd, OnUpdate 0 0, OnUpdate 10 0, OnUpdate 10 10]) =
     ''M0,0Q0,0 5,0Q10,0 10,5''"
proof -
  have pts: "currentPath_cs (foldl (panGesture numberToString) mounted_cs
       [OnUpdate 1 1, OnEnd, OnUpdate 0 0, OnUpdate 10 0, OnUpdate 10 10]) =
     [\<lparr>point_x = 0, point_y = 0\<rparr>, \<lparr>point_x = 10, point_y = 0\<rparr>, \<lparr>point_x = 10, point_y = 10\<rparr>]"
    by code_simp
  have rebuilt: "pointsToSVGPath numberToString
       [\<lparr>point_x = 0, point_y = 0\<rparr>, \<lparr>point_x = 10, point_y = 0\<rparr>, \<lparr>point_x = 10, point_y = 10\<rparr>] =
     ''M0,0Q0,0 5,0Q10,0 10,5''"
    by code_simp
  show ?thesis
    using addPoint_patch_equals_rebuild [of numberToString
        "[OnUpdate 1 1, OnEnd, OnUpdate 0 0, OnUpdate 10 0, OnUpdate 10 10]"]
    by (simp only: pts rebuilt)
qed

text \<open>C4, as the code has it. The callback \<open>onSignatureChange\<close> is called at the end of a
  stroke and at no other operation. \<open>startStroke\<close>, \<open>continueStroke\<close>, \<open>clearSignature\<close> and
  the \<open>addPoint\<close> of \<open>CustomSignature\<close> make no call. \<open>endStroke\<close> makes one call when a
  stroke is active and its path is not empty, \<open>finalizePath\<close> one call when the path in
  progress is not empty, in both with the completed paths and the path just finished
  joined by single spaces; otherwise they make none. So of everything that can happen to
  \<open>PanResponderSignature\<close> only a release or a terminate can add to the calls made, and of
  the callbacks of \<open>CustomSignature\<close> only \<open>onEnd\<close>.\<close>

theorem callback_at_stroke_end_only:
  "notified (startStroke str s e) = notified s
   \<and> notified (continueStroke str s e) = notified s
   \<and> notified (endStroke s) =
       (if isDrawing s \<and> currentPath s \<noteq> []
        then notified s @ [join (completedPaths s @ [currentPath s]) '' '']
        else notified s)
   \<and> notified_cs (addPoint_cs str c x y) = notified_cs c
   \<and> notified_cs (finalizePath c) =
       (if pathData c \<noteq> []
        then notified_cs c @ [join (paths c @ [pathData c]) '' '']
        else notified_cs c)
   \<and> notified (clearSignature s) = notified s
   \<and> notified (panResponder str s a) =
       (if (a = Release \<or> a = Terminate) \<and> isDrawing s \<and> currentPath s \<noteq> []
        then notified s @ [join (completedPaths s @ [currentPath s]) '' '']
        else notified s)
   \<and> notified_cs (panGesture str c g) =
       (if g = OnEnd \<and> pathData c \<noteq> []
        then notified_cs c @ [join (paths c @ [pathData c]) '' '']
        else notified_cs c)"
proof -
  have handlers: "notified (startStroke str s e) = notified s
      \<and> notified (continueStroke str s e) = notified s
      \<and> notified (endStroke s) =
          (if isDrawing s \<and> currentPath s \<noteq> []
           then notified s @ [join (completedPaths s @ [currentPath s]) '' '']
           else notified s)
      \<and> notified_cs (addPoint_cs str c x y) = notified_cs c
      \<and> notified_cs (finalizePath c) =
          (if pathData c \<noteq> []
           then notified_cs c @ [join (paths c @ [pathData c]) '' '']
           else notified_cs c)
      \<and> notified (clearSignature s) = notified s"
    by (simp add: startStroke_fields continueStroke_def addPoint_fields endStroke_def
        addPoint_cs_fields finalizePath_def clearSignature_def Let_def)
  have every: "notified (panResponder str s a) =
       (if (a = Release \<or> a = Terminate) \<and> isDrawing s \<and> currentPath s \<noteq> []
        then notified s @ [join (completedPaths s @ [currentPath s]) '' '']
        else notified s)"
    by (cases a) (simp_all add: startStroke_fields continueStroke_def addPoint_fields
        endStroke_def clearSignature_def Let_def)
  have every_cs: "notified_cs (panGesture str c g) =
       (if g = OnEnd \<and> pathData c \<noteq> []
        then notified_cs c @ [join (paths c @ [pathData c]) '' '']
        else notified_cs c)"
    by (cases g) (simp_all add: addPoint_cs_fields finalizePath_def Let_def)
  from handlers every every_cs show ?thesis
    by (simp only: simp_thms)
qed

theorem callback_at_stroke_end_only_witness:
  "notified (continueStroke numberToString
       (startStroke numberToString mounted \<lparr>locationX = 0, locationY = 0\<rparr>)
       \<lparr>locationX = 10, locationY = 0\<rparr>) = []
   \<and> notified (endStroke (continueStroke numberToString
       (startStroke numberToString mounted \<lparr>locationX = 0, locationY = 0\<rparr>)
       \<lparr>locationX = 10, locationY = 0\<rparr>)) = [''M0,0Q0,0 5,0'']
   \<and> notified (panResponder numberToString (endStroke (continueStroke numberToString
       (startStroke numberToString mounted \<lparr>locationX = 0, locationY = 0\<rparr>)
       \<lparr>locationX = 10, locationY = 0\<rparr>)) Clear) = [''M0,0Q0,0 5,0'']
   \<and> notified (panResponder numberToString (continueStroke numberToString
       (startStroke numberToString mounted \<lparr>locationX = 0, locationY = 0\<rparr>)
       \<lparr>locationX = 10, locationY = 0\<rparr>) Terminate) = [''M0,0Q0,0 5,0'']"
proof -
  let ?s0 = "startStroke numberToString mounted \<lparr>locationX = 0, locationY = 0::real\<rparr>"
  let ?s1 = "continueStroke numberToString ?s0 \<lparr>locationX = 10, locationY = 0\<rparr>"
  have n0: "notified ?s0 = []"
    using callback_at_stroke_end_only [of numberToString mounted] by (simp add: mounted_def)
  have n1: "notified ?s1 = notified ?s0"
    using callback_at_stroke_end_only [of numberToString ?s0] by blast
  have active: "isDrawing ?s1 \<and> currentPath ?s1 \<noteq> []"
    by code_simp
  have payload: "join (completedPaths ?s1 @ [currentPath ?s1]) '' '' = ''M0,0Q0,0 5,0''"
    by code_simp
  have "notified (endStroke ?s1) =
      (if isDrawing ?s1 \<and> currentPath ?s1 \<noteq> []
       then notified ?s1 @ [join (completedPaths ?s1 @ [currentPath ?s1]) '' '']
       else notified ?s1)"
    using callback_at_stroke_end_only [of numberToString ?s1] by blast
  then have ended: "notified (endStroke ?s1) = [''M0,0Q0,0 5,0'']"
    using active by (simp only: payload n1 n0 if_True append_Nil simp_thms)
  have cleared: "notified (panResponder numberToString (endStroke ?s1) Clear) =
      [''M0,0Q0,0 5,0'']"
    using callback_at_stroke_end_only [where str = numberToString and s = "endStroke ?s1"
        and a = Clear, THEN conjunct2, THEN conjunct2,
        THEN conjunct2, THEN conjunct2, THEN conjunct2, THEN conjunct2, THEN conjunct1]
    by (simp add: ended del: panResponder.simps)
  have cancelled: "notified (panResponder numberToString ?s1 Terminate) =
      [''M0,0Q0,0 5,0'']"
    using active callback_at_stroke_end_only [where str = numberToString and s = ?s1
        and a = Terminate, THEN conjunct2, THEN conjunct2,
        THEN conjunct2, THEN conjunct2, THEN conjunct2, THEN conjunct2, THEN conjunct1]
    by (simp add: payload n1 n0 del: panResponder.simps)
  from n1 n0 ended cleared cancelled show ?thesis
    by (simp only: simp_thms)
qed

text \<open>C4, as the specification has it, fails: after a grant at (0,0) and a move to
  (10,0) the drawing reads \<open>M0,0Q0,0 5,0\<close> and the callback has not been called at all;
  the same holds for two updates of \<open>CustomSignature\<close>.\<close>

theorem point_update_without_callback:
  "notified (foldl (panResponder numberToString) mounted
       [Grant \<lparr>locationX = 0, locationY = 0\<rparr>, Move \<lparr>locationX = 10, locationY = 0\<rparr>]) =
     notified (foldl (panResponder numberToString) mounted
       [Grant \<lparr>locationX = 0, locationY = 0\<rparr>])
   \<and> getSignatureData (foldl (panResponder numberToString) mounted
       [Grant \<lparr>locationX = 0, locationY = 0\<rparr>, Move \<lparr>locationX = 10, locationY = 0\<rparr>]) =
     ''M0,0Q0,0 5,0''
   \<and> notified (foldl (panResponder numberToString) mounted
       [Grant \<lparr>locationX = 0, locationY = 0\<rparr>, Move \<lparr>locationX = 10, locationY = 0\<rparr>]) = []
   \<and> pathData (foldl (panGesture numberToString) mounted_cs [OnUpdate 0 0, OnUpdate 10 0]) =
     ''M0,0Q0,0 5,0''
   \<and> notified_cs (foldl (panGesture numberToString) mounted_cs [OnUpdate 0 0, OnUpdate 10 0]) = []"
  by code_simp

text \<open>C5. The list of completed paths only grows at its tail, in both components.
  \<open>PanResponderSignature\<close>: whatever the component is sent, short of a call of
  \<open>clearSignature\<close>, the list before is a prefix of the list after, and one event leaves
  it as it was or appends the path in progress. After stroke \<open>A\<close> and then stroke \<open>B\<close>
  the list is the one before followed by the path of \<open>A\<close> and the path of \<open>B\<close>, and the
  serialized drawing is these paths joined in that order: from mount, the whole path of
  \<open>A\<close>, one space, the whole path of \<open>B\<close>.
  \<open>CustomSignature\<close>, which has no reset: the list before is a prefix of the list after
  any callbacks; an update leaves it as it was and an end appends the path in progress
  when there is one. After the updates and end of stroke \<open>A\<close> and then those of stroke
  \<open>B\<close>, begun with an empty point buffer, the list is the one before followed by the
  path of \<open>A\<close> and the path of \<open>B\<close>, and the two callbacks made carry the joined paths up
  to \<open>A\<close> and up to \<open>B\<close>: from mount, the path of \<open>A\<close>, and then the path of \<open>A\<close>, one
  space, the path of \<open>B\<close>.\<close>

theorem completed_paths_append_only:
  "(Clear \<notin> set as \<longrightarrow>
      prefix (completedPaths s) (completedPaths (foldl (panResponder str) s as)))
   \<and> (a \<noteq> Clear \<longrightarrow>
        completedPaths (panResponder str s a) = completedPaths s
        \<or> completedPaths (panResponder str s a) = completedPaths s @ [currentPath s])
   \<and> prefix (paths c) (paths (panGesture str c g))
   \<and> (A \<noteq> [] \<and> B \<noteq> [] \<longrightarrow>
        completedPaths (foldl (panResponder str) s (strokeEvents A @ strokeEvents B)) =
          completedPaths s @ [pointsToSVGPath str A, pointsToSVGPath str B]
        \<and> getSignatureData (foldl (panResponder str) s (strokeEvents A @ strokeEvents B)) =
          join (completedPaths s @ [pointsToSVGPath str A, pointsToSVGPath str B]) '' ''
        \<and> getSignatureData (foldl (panResponder str) mounted (strokeEvents A @ strokeEvents B)) =
          pointsToSVGPath str A @ '' '' @ pointsToSVGPath str B)
   \<and> paths (panGesture str c g) =
        (if g = OnEnd \<and> pathData c \<noteq> [] then paths c @ [pathData c] else paths c)
   \<and> prefix (paths c) (paths (foldl (panGesture str) c gs))
   \<and> (A \<noteq> [] \<and> B \<noteq> [] \<and> currentPath_cs c = [] \<longrightarrow>
        paths (foldl (panGesture str) c (updatesAt A @ [OnEnd] @ updatesAt B @ [OnEnd])) =
          paths c @ [pointsToSVGPath str A, pointsToSVGPath str B]
        \<and> notified_cs (foldl (panGesture str) c (updatesAt A @ [OnEnd] @ updatesAt B @ [OnEnd])) =
          notified_cs c
            @ [join (paths c @ [pointsToSVGPath str A]) '' '',
               join (paths c @ [pointsToSVGPath str A, pointsToSVGPath str B]) '' ''])
   \<and> (A \<noteq> [] \<and> B \<noteq> [] \<longrightarrow>
        paths (foldl (panGesture str) mounted_cs
            (updatesAt A @ [OnEnd] @ updatesAt B @ [OnEnd])) =
          [pointsToSVGPath str A, pointsToSVGPath str B]
        \<and> notified_cs (foldl (panGesture str) mounted_cs
            (updatesAt A @ [OnEnd] @ updatesAt B @ [OnEnd])) =
          [pointsToSVGPath str A,
           pointsToSVGPath str A @ '' '' @ pointsToSVGPath str B])"
proof -
  have two: "completedPaths (foldl (panResponder str) t (strokeEvents A @ strokeEvents B)) =
        completedPaths t @ [pointsToSVGPath str A, pointsToSVGPath str B]
      \<and> getSignatureData (foldl (panResponder str) t (strokeEvents A @ strokeEvents B)) =
        join (completedPaths t @ [pointsToSVGPath str A, pointsToSVGPath str B]) '' ''"
    if "A \<noteq> []" and "B \<noteq> []" for t :: "'a PanResponderSignature"
    using two_strokes_fields [OF that, of str t] by (simp add: getSignatureData_def)
  have pan: "getSignatureData (foldl (panResponder str) mounted (strokeEvents A @ strokeEvents B)) =
        pointsToSVGPath str A @ '' '' @ pointsToSVGPath str B"
    if "A \<noteq> []" and "B \<noteq> []"
    using two [OF that, of mounted] by (simp add: mounted_def)
  have cs: "paths (foldl (panGesture str) d (updatesAt A @ [OnEnd] @ updatesAt B @ [OnEnd])) =
        paths d @ [pointsToSVGPath str A, pointsToSVGPath str B]
      \<and> notified_cs (foldl (panGesture str) d (updatesAt A @ [OnEnd] @ updatesAt B @ [OnEnd])) =
        notified_cs d
          @ [join (paths d @ [pointsToSVGPath str A]) '' '',
             join (paths d @ [pointsToSVGPath str A, pointsToSVGPath str B]) '' '']"
    if "A \<noteq> []" and "B \<noteq> []" and "currentPath_cs d = []" for d :: "'a CustomSignature"
    using two_gesture_strokes_fields [OF that(3) that(1) that(2), of str] by blast
  have cs_mount: "paths (foldl (panGesture str) mounted_cs
          (updatesAt A @ [OnEnd] @ updatesAt B @ [OnEnd])) =
        [pointsToSVGPath str A, pointsToSVGPath str B]
      \<and> notified_cs (foldl (panGesture str) mounted_cs
          (updatesAt A @ [OnEnd] @ updatesAt B @ [OnEnd])) =
        [pointsToSVGPath str A, pointsToSVGPath str A @ '' '' @ pointsToSVGPath str B]"
    if "A \<noteq> []" and "B \<noteq> []"
  proof -
    have "currentPath_cs (mounted_cs :: 'a CustomSignature) = []"
      by (simp add: mounted_cs_def)
    from cs [OF that this] show ?thesis
      by (simp add: mounted_cs_def)
  qed
  show ?thesis
    using two [of s] pan cs [of c] cs_mount
      foldl_panResponder_prefix [of as s str] panResponder_completedPaths [of a str s]
      panGesture_prefix [of c str g] panGesture_paths [of str c g]
      foldl_panGesture_prefix [of c str gs]
    by blast
qed

theorem completed_paths_append_only_witness:
  "completedPaths (foldl (panResponder numberToString) mounted
       [Grant \<lparr>locationX = 1, locationY = 1\<rparr>, Release,
        Grant \<lparr>locationX = 2, locationY = 2\<rparr>, Move \<lparr>locationX = 4, locationY = 2\<rparr>, Release]) =
     [''M1,1'', ''M2,2Q2,2 3,2'']
   \<and> getSignatureData (foldl (panResponder numberToString) mounted
       [Grant \<lparr>locationX = 1, locationY = 1\<rparr>, Release,
        Grant \<lparr>locationX = 2, locationY = 2\<rparr>, Move \<lparr>locationX = 4, locationY = 2\<rparr>, Release]) =
     ''M1,1 M2,2Q2,2 3,2''
   \<and> prefix (completedPaths (mounted :: real PanResponderSignature))
       (completedPaths (foldl (panResponder numberToString) mounted
         [Grant \<lparr>locationX = 1, locationY = 1\<rparr>, Release,
          Grant \<lparr>locationX = 2, locationY = 2\<rparr>, Move \<lparr>locationX = 4, locationY = 2\<rparr>, Release]))
   \<and> paths (foldl (panGesture numberToString) mounted_cs
       [OnUpdate 1 1, OnEnd, OnUpdate 2 2, OnUpdate 4 2, OnEnd]) =
     [''M1,1'', ''M2,2Q2,2 3,2'']
   \<and> notified_cs (foldl (panGesture numberToString) mounted_cs
       [OnUpdate 1 1, OnEnd, OnUpdate 2 2, OnUpdate 4 2, OnEnd]) =
     [''M1,1'', ''M1,1 M2,2Q2,2 3,2'']"
proof -
  let ?A = "[\<lparr>point_x = 1, point_y = 1::real\<rparr>]"
  let ?B = "[\<lparr>point_x = 2, point_y = 2\<rparr>, \<lparr>point_x = 4, point_y = 2::real\<rparr>]"
  have events: "strokeEvents ?A @ strokeEvents ?B =
       [Grant \<lparr>locationX = 1, locationY = 1\<rparr>, Release,
        Grant \<lparr>locationX = 2, locationY = 2\<rparr>, Move \<lparr>locationX = 4, locationY = 2\<rparr>, Release]"
    by (simp add: strokeEvents_def touchAt_def)
  have gestures: "updatesAt ?A @ [OnEnd] @ updatesAt ?B @ [OnEnd] =
       [OnUpdate 1 1, OnEnd, OnUpdate 2 2, OnUpdate 4 2, OnEnd]"
    by (simp add: updatesAt_def)
  have a: "pointsToSVGPath numberToString ?A = ''M1,1''" by code_simp
  have b: "pointsToSVGPath numberToString ?B = ''M2,2Q2,2 3,2''" by code_simp
  have strokes: "?A \<noteq> [] \<and> ?B \<noteq> []" by simp
  have kept: "Clear \<notin> set (strokeEvents ?A @ strokeEvents ?B)"
    by (simp add: strokeEvents_def)
  note all = completed_paths_append_only [where as = "strokeEvents ?A @ strokeEvents ?B"
      and s = mounted and str = numberToString and a = Release and c = mounted_cs
      and g = OnEnd and A = ?A and B = ?B and gs = "[]"]
  from all strokes have "completedPaths (foldl (panResponder numberToString) mounted
          (strokeEvents ?A @ strokeEvents ?B)) =
        completedPaths (mounted :: real PanResponderSignature)
          @ [pointsToSVGPath numberToString ?A, pointsToSVGPath numberToString ?B]
      \<and> getSignatureData (foldl (panResponder numberToString) mounted
          (strokeEvents ?A @ strokeEvents ?B)) =
        pointsToSVGPath numberToString ?A @ '' '' @ pointsToSVGPath numberToString ?B"
    by blast
  moreover from all kept have "prefix (completedPaths (mounted :: real PanResponderSignature))
      (completedPaths (foldl (panResponder numberToString) mounted
          (strokeEvents ?A @ strokeEvents ?B)))"
    by blast
  moreover from all strokes have "paths (foldl (panGesture numberToString) mounted_cs
          (updatesAt ?A @ [OnEnd] @ updatesAt ?B @ [OnEnd])) =
        [pointsToSVGPath numberToString ?A, pointsToSVGPath numberToString ?B]
      \<and> notified_cs (foldl (panGesture numberToString) mounted_cs
          (updatesAt ?A @ [OnEnd] @ updatesAt ?B @ [OnEnd])) =
        [pointsToSVGPath numberToString ?A,
         pointsToSVGPath numberToString ?A @ '' '' @ pointsToSVGPath numberToString ?B]"
    by blast
  ultimately show ?thesis
    unfolding events gestures a b by (simp add: mounted_def)
qed

text \<open>C6. A stroke ended by a cancel (\<open>onPanResponderTerminate\<close>) leaves the component in
  the state in which the same stroke ended by a release (\<open>onPanResponderRelease\<close>) leaves
  it: the same completed paths, the same path in progress, the same point buffer and the
  same callback made. This holds after any events, so for every active stroke; and the
  stroke that a cancel ends is kept: its path joins the completed paths.\<close>

theorem cancel_equals_end:
  "foldl (panResponder str) s (as @ [Terminate]) = foldl (panResponder str) s (as @ [Release])
   \<and> (ps \<noteq> [] \<longrightarrow>
        completedPaths (foldl (panResponder str) s (feedEvents ps @ [Terminate])) =
          completedPaths s @ [pointsToSVGPath str ps])"
proof -
  have "foldl (panResponder str) s (feedEvents ps @ [Terminate]) =
      foldl (panResponder str) s (strokeEvents ps)"
    by (simp add: strokeEvents_def)
  then have "completedPaths (foldl (panResponder str) s (feedEvents ps @ [Terminate])) =
      completedPaths s @ [pointsToSVGPath str ps]" if "ps \<noteq> []"
    using strokeEvents_fields [OF that, of str s] by simp
  then show ?thesis by simp
qed

theorem cancel_equals_end_witness:
  "foldl (panResponder numberToString) mounted
       ([Grant \<lparr>locationX = 0, locationY = 0\<rparr>, Move \<lparr>locationX = 5, locationY = 5\<rparr>,
         Move \<lparr>locationX = 10, locationY = 0\<rparr>] @ [Terminate]) =
     foldl (panResponder numberToString) mounted
       ([Grant \<lparr>locationX = 0, locationY = 0\<rparr>, Move \<lparr>locationX = 5, locationY = 5\<rparr>,
         Move \<lparr>locationX = 10, locationY = 0\<rparr>] @ [Release])
   \<and> completedPaths (foldl (panResponder numberToString) mounted
       ([Grant \<lparr>locationX = 0, locationY = 0\<rparr>, Move \<lparr>locationX = 5, locationY = 5\<rparr>,
         Move \<lparr>locationX = 10, locationY = 0\<rparr>] @ [Terminate])) =
     [''M0,0Q0,0 2.5,2.5Q5,5 7.5,2.5'']"
proof -
  let ?ps = "[\<lparr>point_x = 0, point_y = 0\<rparr>, \<lparr>point_x = 5, point_y = 5\<rparr>,
       \<lparr>point_x = 10, point_y = 0::real\<rparr>]"
  have events: "feedEvents ?ps =
       [Grant \<lparr>locationX = 0, locationY = 0\<rparr>, Move \<lparr>locationX = 5, locationY = 5\<rparr>,
        Move \<lparr>locationX = 10, locationY = 0\<rparr>]"
    by (simp add: touchAt_def)
  have path: "pointsToSVGPath numberToString ?ps = ''M0,0Q0,0 2.5,2.5Q5,5 7.5,2.5''"
    by code_simp
  have none: "completedPaths (mounted :: real PanResponderSignature) = []"
    by (simp add: mounted_def)
  have ne: "?ps \<noteq> []" by simp
  have both: "foldl (panResponder numberToString) mounted (feedEvents ?ps @ [Terminate]) =
        foldl (panResponder numberToString) mounted (feedEvents ?ps @ [Release])
      \<and> (?ps \<noteq> [] \<longrightarrow>
          completedPaths (foldl (panResponder numberToString) mounted
            (feedEvents ?ps @ [Terminate])) =
          completedPaths (mounted :: real PanResponderSignature)
            @ [pointsToSVGPath numberToString ?ps])"
    by (rule cancel_equals_end)
  from both ne have "foldl (panResponder numberToString) mounted (feedEvents ?ps @ [Terminate]) =
        foldl (panResponder numberToString) mounted (feedEvents ?ps @ [Release])
      \<and> completedPaths (foldl (panResponder numberToString) mounted
            (feedEvents ?ps @ [Terminate])) =
          completedPaths (mounted :: real PanResponderSignature)
            @ [pointsToSVGPath numberToString ?ps]"
    by blast
  then show ?thesis
    unfolding events path none append_Nil .
qed

text \<open>C7. After \<open>clearSignature\<close>, in whatever state it is called, the list of completed
  paths is empty, there is no path in progress, the point buffer is empty, no stroke is
  active, and \<open>getSignatureData\<close> returns the empty string.\<close>

theorem reset_gives_empty_drawing:
  "completedPaths (panResponder str s Clear) = []
   \<and> currentPath (panResponder str s Clear) = []
   \<and> currentPoints (panResponder str s Clear) = []
   \<and> \<not> isDrawing (panResponder str s Clear)
   \<and> getSignatureData (panResponder str s Clear) = []"
  by (simp add: clearSignature_def getSignatureData_def)

theorem reset_gives_empty_drawing_witness:
  "getSignatureData (foldl (panResponder numberToString) mounted
       [Grant \<lparr>locationX = 1, locationY = 1\<rparr>, Release,
        Grant \<lparr>locationX = 2, locationY = 2\<rparr>, Move \<lparr>locationX = 4, locationY = 2\<rparr>]) =
     ''M1,1 M2,2Q2,2 3,2''
   \<and> getSignatureData (foldl (panResponder numberToString) mounted
       ([Grant \<lparr>locationX = 1, locationY = 1\<rparr>, Release,
         Grant \<lparr>locationX = 2, locationY = 2\<rparr>, Move \<lparr>locationX = 4, locationY = 2\<rparr>] @ [Clear])) = []
   \<and> completedPaths (foldl (panResponder numberToString) mounted
       ([Grant \<lparr>locationX = 1, locationY = 1\<rparr>, Release,
         Grant \<lparr>locationX = 2, locationY = 2\<rparr>, Move \<lparr>locationX = 4, locationY = 2\<rparr>] @ [Clear])) = []"
proof -
  let ?s = "foldl (panResponder numberToString) mounted
       [Grant \<lparr>locationX = 1, locationY = 1\<rparr>, Release,
        Grant \<lparr>locationX = 2, locationY = 2\<rparr>, Move \<lparr>locationX = 4, locationY = 2\<rparr>]"
  have before: "getSignatureData ?s = ''M1,1 M2,2Q2,2 3,2''"
    by code_simp
  have "getSignatureData (panResponder numberToString ?s Clear) = []
      \<and> completedPaths (panResponder numberToString ?s Clear) = []"
    using reset_gives_empty_drawing [of numberToString ?s] by blast
  with before show ?thesis
    by (simp only: foldl_append foldl.simps simp_thms)
qed

text \<open>C8, as the code has it. A grant that arrives while a stroke is active is handled
  as any grant is: the state after it is the state before with the point buffer replaced
  by the new point alone and the path in progress replaced by the move command to that
  point. The points and the path of the unfinished stroke are dropped; the completed
  paths and the callbacks made stay as they were, so nothing is reported to the host.\<close>

theorem start_while_active_restarts:
  assumes "isDrawing s"
  shows "panResponder str s (Grant e) =
           s\<lparr>currentPoints := [\<lparr>point_x = locationX e, point_y = locationY e\<rparr>],
             currentPath := ''M'' @ str (locationX e) @ '','' @ str (locationY e)\<rparr>
       \<and> completedPaths (panResponder str s (Grant e)) = completedPaths s
       \<and> notified (panResponder str s (Grant e)) = notified s"
  using assms by (simp add: startStroke_def addPoint_def Let_def pointsToSVGPath_single)

theorem start_while_active_restarts_witness:
  "panResponder numberToString
       (foldl (panResponder numberToString) mounted
          [Grant \<lparr>locationX = 0, locationY = 0\<rparr>, Move \<lparr>locationX = 10, locationY = 0\<rparr>])
       (Grant \<lparr>locationX = 3, locationY = 3\<rparr>) =
     \<lparr>completedPaths = [], currentPath = ''M3,3'',
      currentPoints = [\<lparr>point_x = 3, point_y = 3\<rparr>], isDrawing = True, notified = []\<rparr>"
proof -
  let ?s = "foldl (panResponder numberToString) mounted
          [Grant \<lparr>locationX = 0, locationY = 0\<rparr>, Move \<lparr>locationX = 10, locationY = 0::real\<rparr>]"
  have val: "?s = \<lparr>completedPaths = [], currentPath = ''M0,0Q0,0 5,0'',
      currentPoints = [\<lparr>point_x = 0, point_y = 0\<rparr>, \<lparr>point_x = 10, point_y = 0\<rparr>],
      isDrawing = True, notified = []\<rparr>"
    by code_simp
  have active: "isDrawing ?s"
    by code_simp
  have three: "numberToString 3 = ''3''"
    by code_simp
  have "panResponder numberToString ?s (Grant \<lparr>locationX = 3, locationY = 3\<rparr>) =
      ?s\<lparr>currentPoints := [\<lparr>point_x = 3, point_y = 3\<rparr>],
         currentPath := ''M'' @ numberToString 3 @ '','' @ numberToString 3\<rparr>"
    using start_while_active_restarts [OF active, of numberToString "\<lparr>locationX = 3, locationY = 3\<rparr>"]
    by simp
  then show ?thesis
    unfolding val three by simp
qed

text \<open>C8, as the specification has it, fails: with the points (0,0) and (10,0) buffered
  and the stroke active, a grant at (3,3) leaves the buffer holding (3,3) alone and the
  path \<open>M3,3\<close>, and the callback list is as empty as before.\<close>

theorem start_while_active_overwrites:
  "isDrawing (foldl (panResponder numberToString) mounted
       [Grant \<lparr>locationX = 0, locationY = 0\<rparr>, Move \<lparr>locationX = 10, locationY = 0\<rparr>])
   \<and> currentPoints (foldl (panResponder numberToString) mounted
       [Grant \<lparr>locationX = 0, locationY = 0\<rparr>, Move \<lparr>locationX = 10, locationY = 0\<rparr>]) =
     [\<lparr>point_x = 0, point_y = 0\<rparr>, \<lparr>point_x = 10, point_y = 0\<rparr>]
   \<and> currentPath (foldl (panResponder numberToString) mounted
       [Grant \<lparr>locationX = 0, locationY = 0\<rparr>, Move \<lparr>locationX = 10, locationY = 0\<rparr>]) =
     ''M0,0Q0,0 5,0''
   \<and> currentPoints (foldl (panResponder numberToString) mounted
       [Grant \<lparr>locationX = 0, locationY = 0\<rparr>, Move \<lparr>locationX = 10, locationY = 0\<rparr>,
        Grant \<lparr>locationX = 3, locationY = 3\<rparr>]) =
     [\<lparr>point_x = 3, point_y = 3\<rparr>]
   \<and> currentPath (foldl (panResponder numberToString) mounted
       [Grant \<lparr>locationX = 0, locationY = 0\<rparr>, Move \<lparr>locationX = 10, locationY = 0\<rparr>,
        Grant \<lparr>locationX = 3, locationY = 3\<rparr>]) =
     ''M3,3''
   \<and> notified (foldl (panResponder numberToString) mounted
       [Grant \<lparr>locationX = 0, locationY = 0\<rparr>, Move \<lparr>locationX = 10, locationY = 0\<rparr>,
        Grant \<lparr>locationX = 3, locationY = 3\<rparr>]) = []"
  by code_simp

text \<open>C9. When no stroke is active, a move event and an end event (release or terminate)
  leave the whole state as it is: the completed paths, the path in progress, the point
  buffer, and the callbacks made.\<close>

theorem idle_move_and_end_are_noops:
  assumes "\<not> isDrawing s"
  shows "panResponder str s (Move e) = s
       \<and> panResponder str s Release = s
       \<and> panResponder str s Terminate = s"
  using assms by (simp add: continueStroke_def endStroke_def)

theorem idle_move_and_end_are_noops_witness:
  "panResponder numberToString
       (foldl (panResponder numberToString) mounted
          [Grant \<lparr>locationX = 1, locationY = 1\<rparr>, Release])
       (Move \<lparr>locationX = 7, locationY = 8\<rparr>) =
     \<lparr>completedPaths = [''M1,1''], currentPath = [], currentPoints = [],
      isDrawing = False, notified = [''M1,1'']\<rparr>
   \<and> panResponder numberToString
       (foldl (panResponder numberToString) mounted
          [Grant \<lparr>locationX = 1, locationY = 1\<rparr>, Release])
       Release =
     \<lparr>completedPaths = [''M1,1''], currentPath = [], currentPoints = [],
      isDrawing = False, notified = [''M1,1'']\<rparr>"
proof -
  let ?s = "foldl (panResponder numberToString) mounted
          [Grant \<lparr>locationX = 1, locationY = 1\<rparr>, Release]"
  have val: "?s = \<lparr>completedPaths = [''M1,1''], currentPath = [], currentPoints = [],
      isDrawing = False, notified = [''M1,1'']\<rparr>"
    by code_simp
  have idle: "\<not> isDrawing ?s"
    by code_simp
  have "panResponder numberToString ?s (Move \<lparr>locationX = 7, locationY = 8\<rparr>) = ?s
      \<and> panResponder numberToString ?s Release = ?s"
    using idle_move_and_end_are_noops [OF idle, of numberToString] by blast
  then show ?thesis
    using val by (simp only:)
qed

text \<open>C10. Whenever the end of a stroke calls the callback, the string it passes is the
  serialized drawing of the state the end leaves: \<open>getSignatureData\<close> of that state, which
  is the completed paths, the one just finished last, joined by single spaces. In
  \<open>CustomSignature\<close>, which has no \<open>getSignatureData\<close>, it is the join of the completed
  paths of the state it leaves.\<close>

theorem notified_payload_is_drawing:
  "(notified (endStroke s) \<noteq> notified s \<longrightarrow>
      notified (endStroke s) = notified s @ [getSignatureData (endStroke s)]
      \<and> completedPaths (endStroke s) = completedPaths s @ [currentPath s]
      \<and> getSignatureData (endStroke s) = join (completedPaths (endStroke s)) '' '')
   \<and> (notified_cs (finalizePath c) \<noteq> notified_cs c \<longrightarrow>
      notified_cs (finalizePath c) = notified_cs c @ [join (paths (finalizePath c)) '' '']
      \<and> paths (finalizePath c) = paths c @ [pathData c]
      \<and> pathData (finalizePath c) = [])"
  by (simp add: endStroke_def getSignatureData_def finalizePath_def Let_def)

theorem notified_payload_is_drawing_witness:
  "notified (endStroke (foldl (panResponder numberToString) mounted
       [Grant \<lparr>locationX = 1, locationY = 1\<rparr>, Release,
        Grant \<lparr>locationX = 2, locationY = 2\<rparr>, Move \<lparr>locationX = 4, locationY = 2\<rparr>])) =
     [''M1,1'', ''M1,1 M2,2Q2,2 3,2'']
   \<and> getSignatureData (endStroke (foldl (panResponder numberToString) mounted
       [Grant \<lparr>locationX = 1, locationY = 1\<rparr>, Release,
        Grant \<lparr>locationX = 2, locationY = 2\<rparr>, Move \<lparr>locationX = 4, locationY = 2\<rparr>])) =
     ''M1,1 M2,2Q2,2 3,2''
   \<and> notified_cs (finalizePath (foldl (panGesture numberToString) mounted_cs
       [OnUpdate 1 1, OnEnd, OnUpdate 2 2, OnUpdate 4 2])) =
     [''M1,1'', ''M1,1 M2,2Q2,2 3,2'']
   \<and> join (paths (finalizePath (foldl (panGesture numberToString) mounted_cs
       [OnUpdate 1 1, OnEnd, OnUpdate 2 2, OnUpdate 4 2]))) '' '' =
     ''M1,1 M2,2Q2,2 3,2''"
proof -
  let ?s = "foldl (panResponder numberToString) mounted
       [Grant \<lparr>locationX = 1, locationY = 1\<rparr>, Release,
        Grant \<lparr>locationX = 2, locationY = 2\<rparr>, Move \<lparr>locationX = 4, locationY = 2::real\<rparr>]"
  let ?c = "foldl (panGesture numberToString) mounted_cs
       [OnUpdate 1 1, OnEnd, OnUpdate 2 2, OnUpdate 4 (2::real)]"
  have before: "notified ?s = [''M1,1'']"
    by code_simp
  have drawing: "getSignatureData (endStroke ?s) = ''M1,1 M2,2Q2,2 3,2''"
    by code_simp
  have called: "notified (endStroke ?s) \<noteq> notified ?s"
    by code_simp
  have before_cs: "notified_cs ?c = [''M1,1'']"
    by code_simp
  have drawing_cs: "join (paths (finalizePath ?c)) '' '' = ''M1,1 M2,2Q2,2 3,2''"
    by code_simp
  have called_cs: "notified_cs (finalizePath ?c) \<noteq> notified_cs ?c"
    by code_simp
  have "notified (endStroke ?s) = notified ?s @ [getSignatureData (endStroke ?s)]"
    using notified_payload_is_drawing [of ?s ?c] called by blast
  then have pan: "notified (endStroke ?s) = [''M1,1'', ''M1,1 M2,2Q2,2 3,2'']"
    by (simp only: before drawing append.simps)
  have "notified_cs (finalizePath ?c) = notified_cs ?c @ [join (paths (finalizePath ?c)) '' '']"
    using notified_payload_is_drawing [of ?s ?c] called_cs by blast
  then have cs: "notified_cs (finalizePath ?c) = [''M1,1'', ''M1,1 M2,2Q2,2 3,2'']"
    by (simp only: before_cs drawing_cs append.simps)
  from pan drawing cs drawing_cs show ?thesis
    by (simp only: simp_thms)
qed

end
